theory Spec2Isabelle
  imports Complex_Main
begin

section \<open>Pointing correction of a scanning telescope (s4cmb, time\_ordered\_data)\<close>

text \<open>
  A shallow embedding of \<^verbatim>\<open>tod.py\<close> (classes \<^verbatim>\<open>pointing\<close> and \<^verbatim>\<open>Azel2Radec\<close>) and of
  \<^verbatim>\<open>input_sky.py\<close> (class \<^verbatim>\<open>HealpixFitsMap\<close>).

  Python floats are read as real numbers: the development is about the formulas the
  code evaluates, not about rounding. A one-dimensional numpy array is a list of reals.
  Every exception of the source is a value of type \<open>error\<close>, and a function that may
  raise returns \<open>error + 'a\<close> with the error on the left.
\<close>

subsection \<open>Errors and sequencing\<close>

datatype error = AssertionError | ValueError | IndexError | TypeError | OSError

text \<open>Sequencing of two statements: the first exception raised is the result.\<close>

definition and_then :: "error + 'a \<Rightarrow> ('a \<Rightarrow> error + 'b) \<Rightarrow> error + 'b" where
  "and_then m f = (case m of Inl e \<Rightarrow> Inl e | Inr x \<Rightarrow> f x)"

subsection \<open>One-dimensional numpy arrays\<close>

type_synonym ndarray = "real list"

text \<open>
  \<^verbatim>\<open>a op b\<close> on two one-dimensional arrays: numpy broadcasts a length-1 operand and
  raises \<^verbatim>\<open>ValueError\<close> when the two lengths differ otherwise.
\<close>

definition binop :: "(real \<Rightarrow> real \<Rightarrow> real) \<Rightarrow> ndarray \<Rightarrow> ndarray \<Rightarrow> error + ndarray" where
  "binop f xs ys =
     (if length xs = length ys then Inr (map2 f xs ys)
      else if length xs = 1 then Inr (map (f (hd xs)) ys)
      else if length ys = 1 then Inr (map (\<lambda>x. f x (hd ys)) xs)
      else Inl ValueError)"

text \<open>
  \<^verbatim>\<open>a op= b\<close>: the result is stored in \<open>a\<close>, so \<open>b\<close> must broadcast to the
  shape of \<open>a\<close>.
\<close>

definition inplace :: "(real \<Rightarrow> real \<Rightarrow> real) \<Rightarrow> ndarray \<Rightarrow> ndarray \<Rightarrow> error + ndarray" where
  "inplace f xs ys =
     (if length ys = length xs then Inr (map2 f xs ys)
      else if length ys = 1 then Inr (map (\<lambda>x. f x (hd ys)) xs)
      else Inl ValueError)"

text \<open>\<^verbatim>\<open>np.min\<close> raises \<^verbatim>\<open>ValueError\<close> on an array of size zero.\<close>

fun np_min :: "ndarray \<Rightarrow> error + real" where
  "np_min [] = Inl ValueError"
| "np_min (x # xs) = Inr (fold min xs x)"

subsection \<open>Splitting the parameter names\<close>

text \<open>
  \<^verbatim>\<open>str.split()\<close> without argument: the maximal runs of characters that are not
  whitespace, in order; no empty word. The whitespace of a byte string is the six ASCII
  characters space, \<^verbatim>\<open>\t \n \v \f \r\<close>.
\<close>

definition is_space :: "char \<Rightarrow> bool" where
  "is_space c = (c \<in> set [CHR '' '', CHR 0x09, CHR 0x0A, CHR 0x0B, CHR 0x0C, CHR 0x0D])"

text \<open>The word being read is kept reversed in the first argument.\<close>

fun split_from :: "string \<Rightarrow> string \<Rightarrow> string list" where
  "split_from w [] = (if w = [] then [] else [rev w])"
| "split_from w (c # cs) =
     (if is_space c then (if w = [] then split_from [] cs else rev w # split_from [] cs)
      else split_from (c # w) cs)"

definition str_split :: "string \<Rightarrow> string list" where
  "str_split s = split_from [] s"

subsection \<open>The class \<^verbatim>\<open>pointing\<close>\<close>

text \<open>
  The fields of \<^verbatim>\<open>pointing\<close> that \<^verbatim>\<open>apply_pointing_model\<close> reads. \<open>lat\<close> is the
  latitude as the constructor stores it, in radians.
\<close>

record pointing =
  az_enc :: ndarray
  el_enc :: ndarray
  time :: ndarray
  value_params :: "real list"
  allowed_params :: string
  lat :: real

definition sec2deg :: real where
  "sec2deg = 360 / 86400"

text \<open>The 25 keys of the dictionary \<^verbatim>\<open>params\<close>, in the order of the source.\<close>

definition catalog :: "string list" where
  "catalog = [''an'', ''aw'', ''an2'', ''aw2'', ''an4'',
              ''aw4'', ''npae'', ''ca'', ''ia'', ''ie'', ''tf'',
              ''tfs'', ''ref'', ''dt'', ''elt'', ''ta1'',
              ''te1'', ''sa'', ''se'', ''sa2'',
              ''se2'', ''sta'', ''ste'', ''sta2'', ''ste2'']"

text \<open>\<^verbatim>\<open>{p: 0.0 for p in [...]}\<close>\<close>

definition params0 :: "string \<rightharpoonup> real" where
  "params0 = map_of (map (\<lambda>p. (p, 0)) catalog)"

text \<open>\<^verbatim>\<open>list.index\<close>: the position of the first occurrence, \<^verbatim>\<open>ValueError\<close> when there is none.\<close>

fun list_index :: "'a list \<Rightarrow> 'a \<Rightarrow> error + nat" where
  "list_index [] x = Inl ValueError"
| "list_index (y # ys) x =
     (if y = x then Inr 0 else and_then (list_index ys x) (\<lambda>i. Inr (Suc i)))"

text \<open>\<^verbatim>\<open>xs[i]\<close> for an index that is not negative.\<close>

definition getitem :: "'a list \<Rightarrow> nat \<Rightarrow> error + 'a" where
  "getitem xs i = (if i < length xs then Inr (xs ! i) else Inl IndexError)"

text \<open>
  The body of the loop \<^verbatim>\<open>for param in params\<close> (lines 211-214), and the loop over the
  keys. An iteration writes the key it visits only, so the order of the keys does not
  matter; the model visits them in the order of \<open>catalog\<close>.
\<close>

definition set_param ::
  "string list \<Rightarrow> real list \<Rightarrow> string \<Rightarrow> (string \<rightharpoonup> real) \<Rightarrow> error + (string \<rightharpoonup> real)" where
  "set_param names vals param params =
     (if param \<in> set names then
        and_then (list_index names param) (\<lambda>i.
        and_then (getitem vals i) (\<lambda>v.
        Inr (params(param \<mapsto> v))))
      else Inr params)"

fun for_params ::
  "string list \<Rightarrow> real list \<Rightarrow> string list \<Rightarrow> (string \<rightharpoonup> real) \<Rightarrow> error + (string \<rightharpoonup> real)" where
  "for_params names vals [] params = Inr params"
| "for_params names vals (p # ps) params =
     and_then (set_param names vals p params) (for_params names vals ps)"

text \<open>
  \<^verbatim>\<open>params[k]\<close> for a key \<open>k\<close> of the dictionary. The keys read below are literals of
  \<open>catalog\<close>, and the loop never removes a key (lemma \<open>for_params_dom\<close>), so the
  lookups of the source cannot raise \<^verbatim>\<open>KeyError\<close>.
\<close>

definition item :: "(string \<rightharpoonup> real) \<Rightarrow> string \<Rightarrow> real" where
  "item params k = the (params k)"

text \<open>
  Elementwise functions, and a scalar times an array. Division of floats by zero gives
  an infinity or a NaN in numpy, with a warning and no exception; over the reals the
  quotient is the total division of HOL, which gives \<open>0\<close>. An entry of the model
  therefore stands for the entry of the program only where no divisor is zero, that is
  where \<open>tan\<close> (line 247) and \<open>cos\<close> (line 257) of the elevation are not zero; the
  entrywise equalities with the formulas of the specification are stated under this
  condition.
\<close>

definition np_sin :: "ndarray \<Rightarrow> ndarray" where
  "np_sin xs = map sin xs"

definition np_cos :: "ndarray \<Rightarrow> ndarray" where
  "np_cos xs = map cos xs"

definition np_tan :: "ndarray \<Rightarrow> ndarray" where
  "np_tan xs = map tan xs"

definition scale :: "real \<Rightarrow> ndarray \<Rightarrow> ndarray" where
  "scale c xs = map (\<lambda>x. c * x) xs"

text \<open>
  The statement \<^verbatim>\<open>a op= e\<close>: the right-hand side is evaluated first, then stored
  in \<open>a\<close>.
\<close>

definition aug :: "(real \<Rightarrow> real \<Rightarrow> real) \<Rightarrow> ndarray \<Rightarrow> error + ndarray \<Rightarrow> error + ndarray" where
  "aug f a e = and_then e (\<lambda>b. inplace f a b)"

text \<open>Lines 219-234, the block \<^verbatim>\<open>## Azimuth\<close>: \<open>azd\<close> in arcminutes.\<close>

definition azimuth_offset :: "(string \<rightharpoonup> real) \<Rightarrow> pointing \<Rightarrow> error + ndarray" where
  "azimuth_offset params self =
     (let az = az_enc self; el = el_enc self in
      and_then (binop (*) (scale (- item params ''an'') (np_sin az)) (np_sin el)) (\<lambda>azd.
      and_then (aug (-) azd (binop (*) (scale (item params ''aw'') (np_cos az)) (np_sin el))) (\<lambda>azd.
      and_then (aug (-) azd
         (binop (*) (scale (- item params ''an2'') (np_sin (scale 2 az))) (np_sin el))) (\<lambda>azd.
      and_then (aug (-) azd
         (binop (*) (scale (item params ''aw2'') (np_cos (scale 2 az))) (np_sin el))) (\<lambda>azd.
      and_then (aug (-) azd
         (binop (*) (scale (- item params ''an4'') (np_sin (scale 4 az))) (np_sin el))) (\<lambda>azd.
      and_then (aug (-) azd
         (binop (*) (scale (item params ''aw4'') (np_cos (scale 4 az))) (np_sin el))) (\<lambda>azd.
      and_then (inplace (+) azd (scale (item params ''npae'') (np_sin el))) (\<lambda>azd.
      and_then (Inr (map (\<lambda>x. x - item params ''ca'') azd)) (\<lambda>azd.
      and_then (inplace (+) azd (scale (item params ''ia'') (np_cos el))) (\<lambda>azd.
      aug (+) azd
        (and_then (binop (*) (map (\<lambda>x. x * cos (lat self)) (np_cos az)) (np_tan el)) (\<lambda>t.
         Inr (scale (item params ''dt'') (map (\<lambda>x. - sin (lat self) + x) t))))))))))))))"

text \<open>Lines 237-251, the block \<^verbatim>\<open>## Elevation\<close>: \<open>eld\<close> in arcminutes.\<close>

definition elevation_offset :: "(string \<rightharpoonup> real) \<Rightarrow> pointing \<Rightarrow> error + ndarray" where
  "elevation_offset params self =
     (let az = az_enc self; el = el_enc self in
      and_then (Inr (scale (item params ''an'') (np_cos az))) (\<lambda>eld.
      and_then (inplace (-) eld (scale (item params ''aw'') (np_sin az))) (\<lambda>eld.
      and_then (inplace (-) eld (scale (item params ''an2'') (np_cos (scale 2 az)))) (\<lambda>eld.
      and_then (inplace (-) eld (scale (item params ''aw2'') (np_sin (scale 2 az)))) (\<lambda>eld.
      and_then (inplace (-) eld (scale (item params ''an4'') (np_cos (scale 4 az)))) (\<lambda>eld.
      and_then (inplace (-) eld (scale (item params ''aw4'') (np_sin (scale 4 az)))) (\<lambda>eld.
      and_then (Inr (map (\<lambda>x. x - item params ''ie'') eld)) (\<lambda>eld.
      and_then (inplace (+) eld (scale (item params ''tf'') (np_cos el))) (\<lambda>eld.
      and_then (inplace (+) eld (scale (item params ''tfs'') (np_sin el))) (\<lambda>eld.
      and_then (inplace (-) eld (map (\<lambda>x. item params ''ref'' / x) (np_tan el))) (\<lambda>eld.
      and_then (inplace (+) eld
         (scale (- item params ''dt'' * cos (lat self)) (np_sin az))) (\<lambda>eld.
      aug (+) eld
        (and_then (np_min (time self)) (\<lambda>m.
         Inr (scale (item params ''elt'') (map (\<lambda>t. t - m) (time self)))))))))))))))))"

text \<open>
  \<^verbatim>\<open>apply_pointing_model\<close> (lines 185-262): the assertion on the two lengths, the
  dictionary, the two offsets, their conversion to radians, the division of \<open>azd\<close> by
  \<open>cos el\<close>, and the two differences.
\<close>

definition apply_pointing_model :: "pointing \<Rightarrow> error + (ndarray \<times> ndarray)" where
  "apply_pointing_model self =
     (let names = str_split (allowed_params self) in
      if length (value_params self) \<noteq> length names then Inl AssertionError
      else
        and_then (for_params names (value_params self) catalog params0) (\<lambda>params.
        and_then (Inr (params(''dt'' \<mapsto> item params ''dt'' * sec2deg))) (\<lambda>params.
        and_then (azimuth_offset params self) (\<lambda>azd.
        and_then (elevation_offset params self) (\<lambda>eld.
        and_then (Inr (map (\<lambda>x. x * (pi / (180 * 60))) azd)) (\<lambda>azd.
        and_then (Inr (map (\<lambda>x. x * (pi / (180 * 60))) eld)) (\<lambda>eld.
        and_then (inplace (/) azd (np_cos (el_enc self))) (\<lambda>azd.
        and_then (binop (-) (az_enc self) azd) (\<lambda>az.
        and_then (binop (-) (el_enc self) eld) (\<lambda>el.
        Inr (az, el)))))))))))"

subsection \<open>The formulas of the specification\<close>

text \<open>
  The value of a term of the pointing model, as the specification gives it: the value
  paired with the name in the supplied lists, \<open>0\<close> for a name that is not supplied, and
  for \<open>dt\<close> the value in seconds converted to degrees, \<open>dt * 360 / 86400\<close>.
\<close>

definition term_value :: "string list \<Rightarrow> real list \<Rightarrow> string \<Rightarrow> real" where
  "term_value names vals k =
     (let v = (case map_of (zip names vals) k of None \<Rightarrow> 0 | Some v \<Rightarrow> v)
      in if k = ''dt'' then v * (360 / 86400) else v)"

text \<open>
  The azimuth and the elevation correction in arcminutes, written from the two formulas
  of the specification; \<open>P\<close> gives the value of each term.
\<close>

definition azd_spec :: "(string \<Rightarrow> real) \<Rightarrow> real \<Rightarrow> real \<Rightarrow> real \<Rightarrow> real" where
  "azd_spec P la az el =
     - P ''an'' * sin az * sin el - P ''aw'' * cos az * sin el
     + P ''an2'' * sin (2 * az) * sin el - P ''aw2'' * cos (2 * az) * sin el
     + P ''an4'' * sin (4 * az) * sin el - P ''aw4'' * cos (4 * az) * sin el
     + P ''npae'' * sin el - P ''ca'' + P ''ia'' * cos el
     + P ''dt'' * (- sin la + cos az * cos la * tan el)"

definition eld_spec ::
  "(string \<Rightarrow> real) \<Rightarrow> real \<Rightarrow> real \<Rightarrow> real \<Rightarrow> real \<Rightarrow> real \<Rightarrow> real" where
  "eld_spec P la az el t tmin =
     P ''an'' * cos az - P ''aw'' * sin az - P ''an2'' * cos (2 * az) - P ''aw2'' * sin (2 * az)
     - P ''an4'' * cos (4 * az) - P ''aw4'' * sin (4 * az) - P ''ie''
     + P ''tf'' * cos el + P ''tfs'' * sin el - P ''ref'' / tan el
     - P ''dt'' * cos la * sin az + P ''elt'' * (t - tmin)"

text \<open>The ten names of the catalog that no line of the correction reads.\<close>

definition unused_terms :: "string list" where
  "unused_terms = [''ta1'', ''te1'', ''sa'', ''se'', ''sa2'', ''se2'',
                   ''sta'', ''ste'', ''sta2'', ''ste2'']"

text \<open>The fifteen names that the correction reads.\<close>

definition used_terms :: "string list" where
  "used_terms = [''an'', ''aw'', ''an2'', ''aw2'', ''an4'', ''aw4'', ''npae'', ''ca'', ''ia'',
                 ''ie'', ''tf'', ''tfs'', ''ref'', ''dt'', ''elt'']"

text \<open>The dictionary after the loop of lines 211-214, in closed form.\<close>

definition loaded_params :: "string list \<Rightarrow> real list \<Rightarrow> string \<rightharpoonup> real" where
  "loaded_params names vals =
     (\<lambda>k. if k \<in> set catalog
          then Some (case map_of (zip names vals) k of None \<Rightarrow> 0 | Some v \<Rightarrow> v)
          else None)"

subsection \<open>The UT1-UTC table\<close>

text \<open>
  \<^verbatim>\<open>np.searchsorted(a, v)\<close> with the default \<^verbatim>\<open>side='left'\<close>: a binary search for the
  insertion point of \<open>v\<close> in \<open>a\<close>.
\<close>

function bisect_left :: "real list \<Rightarrow> real \<Rightarrow> nat \<Rightarrow> nat \<Rightarrow> nat" where
  "bisect_left a v lo hi =
     (if lo < hi then
        (if a ! (lo + (hi - lo) div 2) < v
         then bisect_left a v (lo + (hi - lo) div 2 + 1) hi
         else bisect_left a v lo (lo + (hi - lo) div 2))
      else lo)"
  by pat_completeness auto
termination
  by (relation "measure (\<lambda>(a, v, lo, hi). hi - lo)") auto

declare bisect_left.simps [simp del]

definition searchsorted :: "real list \<Rightarrow> real \<Rightarrow> nat" where
  "searchsorted a v = bisect_left a v 0 (length a)"

text \<open>
  \<^verbatim>\<open>get_ut1utc\<close> (lines 164-183). \<^verbatim>\<open>np.loadtxt\<close> reads the file and keeps its columns 1
  and 2; the model starts from the table it returns, one row \<open>(mjd, correction)\<close> per
  line of the file. \<open>umjds\<close> and \<open>ut1utcs\<close> are the two columns of the table.
\<close>

definition get_ut1utc :: "(real \<times> real) list \<Rightarrow> real \<Rightarrow> error + real" where
  "get_ut1utc table mjd =
     (let umjds = map fst table;
          ut1utcs = map snd table;
          uindex = searchsorted umjds mjd
      in getitem ut1utcs uindex)"

subsection \<open>The class \<^verbatim>\<open>Azel2Radec\<close>\<close>

text \<open>
  The routines of SLALIB that the class calls are a parameter of the model: the
  library is not part of the repository. The two parameter blocks are arrays of reals.
\<close>

record slalib =
  sla_mappa :: "real \<Rightarrow> real \<Rightarrow> real list"
  sla_aoppat :: "real \<Rightarrow> real list \<Rightarrow> real list"
  sla_oapqk :: "string \<Rightarrow> real \<Rightarrow> real \<Rightarrow> real list \<Rightarrow> real \<times> real"
  sla_ampqk :: "real \<Rightarrow> real \<Rightarrow> real list \<Rightarrow> real \<times> real"
  sla_dbear :: "real \<Rightarrow> real \<Rightarrow> real \<Rightarrow> real \<Rightarrow> real"
  sla_mapqkz :: "real \<Rightarrow> real \<Rightarrow> real list \<Rightarrow> real \<times> real"
  sla_aopqk :: "real \<Rightarrow> real \<Rightarrow> real list \<Rightarrow> real \<times> real \<times> real \<times> real \<times> real"

text \<open>
  The fields of a converter that the two conversions read: the equinox and the
  observation-parameter block \<open>aoprms\<close>, which every call overwrites.
\<close>

record Azel2Radec =
  epequi :: real
  ut1utc :: real
  aoprms :: "real list"

text \<open>
  \<^verbatim>\<open>azel2radecpa\<close> (lines 336-352). The method assigns \<^verbatim>\<open>self.aoprms\<close>, so the model
  returns the converter with the result.
\<close>

definition azel2radecpa ::
  "slalib \<Rightarrow> Azel2Radec \<Rightarrow> real \<Rightarrow> real \<Rightarrow> real \<Rightarrow> Azel2Radec \<times> (real \<times> real \<times> real)" where
  "azel2radecpa sla self mjd az el =
     (let zd = pi / 2 - el;
          amprms = sla_mappa sla (epequi self) mjd;
          self = self\<lparr>aoprms := sla_aoppat sla mjd (aoprms self)\<rparr>;
          (ra_app1, dec_app1) = sla_oapqk sla ''a'' az (zd + 1 / 10 ^ 8) (aoprms self);
          (ra1, dec1) = sla_ampqk sla ra_app1 dec_app1 amprms;
          (ra_app2, dec_app2) = sla_oapqk sla ''a'' az (zd - 1 / 10 ^ 8) (aoprms self);
          (ra2, dec2) = sla_ampqk sla ra_app2 dec_app2 amprms;
          pa = sla_dbear sla ra1 dec1 ra2 dec2;
          ra = (1 / 2) * (ra1 + ra2);
          dec = (1 / 2) * (dec1 + dec2)
      in (self, (ra, dec, pa)))"

text \<open>\<^verbatim>\<open>radec2azel\<close> (lines 354-362).\<close>

definition radec2azel ::
  "slalib \<Rightarrow> Azel2Radec \<Rightarrow> real \<Rightarrow> real \<Rightarrow> real \<Rightarrow> Azel2Radec \<times> (real \<times> real)" where
  "radec2azel sla self mjd ra dec =
     (let amprms = sla_mappa sla (epequi self) mjd;
          self = self\<lparr>aoprms := sla_aoppat sla mjd (aoprms self)\<rparr>;
          (ra_app, dec_app) = sla_mapqkz sla ra dec amprms;
          (az, zd, a, b, c) = sla_aopqk sla ra_app dec_app (aoprms self);
          el = pi / 2 - zd
      in (self, (az, el)))"

text \<open>
  The forward conversion as the specification describes it. \<open>reduce\<close> is one
  evaluation at a zenith distance: observed to apparent with the advanced observation
  block, then apparent to mean with the mean-place block built from the query epoch.
\<close>

definition forward_spec ::
  "slalib \<Rightarrow> real \<Rightarrow> real list \<Rightarrow> real \<Rightarrow> real \<Rightarrow> real \<Rightarrow> real list \<times> (real \<times> real \<times> real)" where
  "forward_spec sla equinox obs mjd az el =
     (let zd = pi / 2 - el;
          mean_block = sla_mappa sla equinox mjd;
          obs_block = sla_aoppat sla mjd obs;
          reduce = (\<lambda>z. case sla_oapqk sla ''a'' az z obs_block of
                           (ra_app, dec_app) \<Rightarrow> sla_ampqk sla ra_app dec_app mean_block);
          plus = reduce (zd + 1 / 10 ^ 8);
          minus = reduce (zd - 1 / 10 ^ 8)
      in (obs_block,
          ((fst plus + fst minus) / 2,
           (snd plus + snd minus) / 2,
           sla_dbear sla (fst plus) (snd plus) (fst minus) (snd minus))))"

subsection \<open>The class \<^verbatim>\<open>HealpixFitsMap\<close>\<close>

text \<open>
  The functions of healpy that the class calls are a parameter of the model:
  \<open>read_map3 fn\<close> is \<^verbatim>\<open>hp.read_map(fn, (0, 1, 2))\<close>, which returns three maps,
  \<open>read_map1 fn\<close> is \<^verbatim>\<open>hp.read_map(fn, field=0)\<close>, which returns one.
\<close>

record healpy =
  read_map3 :: "string \<Rightarrow> error + (ndarray \<times> ndarray \<times> ndarray)"
  read_map1 :: "string \<Rightarrow> error + ndarray"
  npix2nside :: "nat \<Rightarrow> error + nat"

text \<open>
  The attributes \<^verbatim>\<open>I\<close>, \<^verbatim>\<open>Q\<close> and \<^verbatim>\<open>U\<close> are \<open>I_map\<close>, \<open>Q_map\<close> and \<open>U_map\<close>;
  \<^verbatim>\<open>None\<close> is \<open>None\<close>. The flag \<^verbatim>\<open>verbose\<close> only changes what healpy prints.
\<close>

record HealpixFitsMap =
  input_filename :: string
  do_pol :: bool
  no_ileak :: bool
  no_quleak :: bool
  nside :: "nat option"
  I_map :: "ndarray option"
  Q_map :: "ndarray option"
  U_map :: "ndarray option"

text \<open>\<^verbatim>\<open>load_healpix_fits_map\<close> (lines 41-76).\<close>

definition load_healpix_fits_map ::
  "healpy \<Rightarrow> HealpixFitsMap \<Rightarrow> bool \<Rightarrow> error + HealpixFitsMap" where
  "load_healpix_fits_map hp self force =
     (if nside self = None \<or> force then
        and_then
          (if do_pol self then
             and_then (read_map3 hp (input_filename self)) (\<lambda>(i, q, u).
             Inr (self\<lparr>I_map := Some i, Q_map := Some q, U_map := Some u\<rparr>))
           else
             and_then (read_map1 hp (input_filename self)) (\<lambda>i.
             Inr (self\<lparr>I_map := Some i\<rparr>)))
          (\<lambda>self.
             case I_map self of
               None \<Rightarrow> Inl TypeError
             | Some i \<Rightarrow>
                 and_then (npix2nside hp (length i)) (\<lambda>n. Inr (self\<lparr>nside := Some n\<rparr>)))
      else Inr self)"

text \<open>
  \<^verbatim>\<open>set_leakage_to_zero\<close> (lines 78-105). \<^verbatim>\<open>a[:] = 0.0\<close> overwrites every entry of an
  array and raises \<^verbatim>\<open>TypeError\<close> on \<^verbatim>\<open>None\<close>.
\<close>

definition set_leakage_to_zero :: "HealpixFitsMap \<Rightarrow> error + HealpixFitsMap" where
  "set_leakage_to_zero self =
     and_then
       (if no_ileak self then
          (case I_map self of
             None \<Rightarrow> Inl TypeError
           | Some i \<Rightarrow> Inr (self\<lparr>I_map := Some (map (\<lambda>x. 0) i)\<rparr>))
        else Inr self)
       (\<lambda>self.
          if no_quleak self then
            (let self = (case Q_map self of
                           None \<Rightarrow> self
                         | Some q \<Rightarrow> self\<lparr>Q_map := Some (map (\<lambda>x. 0) q)\<rparr>);
                 self = (case U_map self of
                           None \<Rightarrow> self
                         | Some u \<Rightarrow> self\<lparr>U_map := Some (map (\<lambda>x. 0) u)\<rparr>)
             in Inr self)
          else Inr self)"

text \<open>The constructor (lines 21-39).\<close>

definition HealpixFitsMap_init ::
  "healpy \<Rightarrow> string \<Rightarrow> bool \<Rightarrow> bool \<Rightarrow> bool \<Rightarrow> error + HealpixFitsMap" where
  "HealpixFitsMap_init hp fn pol ileak quleak =
     (let self = \<lparr>input_filename = fn, do_pol = pol, no_ileak = ileak, no_quleak = quleak,
                  nside = None, I_map = None, Q_map = None, U_map = None\<rparr>
      in and_then (load_healpix_fits_map hp self False) set_leakage_to_zero)"

text \<open>The attribute is an array, and every entry of the array is zero.\<close>

definition all_zeros :: "ndarray option \<Rightarrow> bool" where
  "all_zeros a = (case a of None \<Rightarrow> False | Some xs \<Rightarrow> list_all (\<lambda>x. x = 0) xs)"

text \<open>
  A healpy for the examples: every file holds the three maps \<open>i\<close>, \<open>q\<close> and \<open>u\<close>, and
  the only number of pixels it accepts is 12, of \<open>nside = 1\<close>.
\<close>

definition stub_healpy :: "ndarray \<Rightarrow> ndarray \<Rightarrow> ndarray \<Rightarrow> healpy" where
  "stub_healpy i q u =
     \<lparr>read_map3 = (\<lambda>fn. Inr (i, q, u)),
      read_map1 = (\<lambda>fn. Inr i),
      npix2nside = (\<lambda>npix. if npix = 12 then Inr 1 else Inl ValueError)\<rparr>"

section \<open>Properties\<close>

subsection \<open>Sequencing and arrays\<close>

lemma and_then_Inr [simp]: "and_then (Inr x) f = f x"
  by (simp add: and_then_def)

lemma and_then_Inl [simp]: "and_then (Inl e) f = Inl e"
  by (simp add: and_then_def)

lemma binop_same: "length xs = length ys \<Longrightarrow> binop f xs ys = Inr (map2 f xs ys)"
  by (simp add: binop_def)

lemma inplace_same: "length ys = length xs \<Longrightarrow> inplace f xs ys = Inr (map2 f xs ys)"
  by (simp add: inplace_def)

lemma map2_map_map: "map2 f (map g xs) (map h xs) = map (\<lambda>x. f (g x) (h x)) xs"
  by (induction xs) simp_all

lemma np_min_Min:
  assumes "xs \<noteq> []"
  shows "np_min xs = Inr (Min (set xs))"
proof (cases xs)
  case Nil
  with assms show ?thesis by simp
next
  case (Cons x ys)
  then show ?thesis using Min.set_eq_fold [of x ys] by simp
qed

subsection \<open>The dictionary of parameters\<close>

text \<open>
  With as many values as names, \<^verbatim>\<open>names.index(k)\<close> and \<^verbatim>\<open>value_params[index]\<close> succeed
  for every supplied name and give the value that \<open>zip\<close> pairs with its first occurrence.
\<close>

lemma list_index_zip:
  "length vals = length names \<Longrightarrow> k \<in> set names \<Longrightarrow>
   \<exists>i v. list_index names k = Inr i \<and> getitem vals i = Inr v \<and> map_of (zip names vals) k = Some v"
proof (induction names arbitrary: vals)
  case Nil
  then show ?case by simp
next
  case (Cons y ys)
  then obtain w ws where vals: "vals = w # ws" and len: "length ws = length ys"
    by (cases vals) auto
  show ?case
  proof (cases "y = k")
    case True
    then show ?thesis by (simp add: vals getitem_def)
  next
    case False
    with Cons.prems have "k \<in> set ys" by simp
    from Cons.IH [OF len this] obtain i v where
      "list_index ys k = Inr i" "getitem ws i = Inr v" "map_of (zip ys ws) k = Some v"
      by blast
    with False show ?thesis
      by (simp add: vals getitem_def split: if_splits)
  qed
qed

lemma map_of_zip_None: "k \<notin> set names \<Longrightarrow> map_of (zip names vals) k = None"
  by (auto simp: map_of_eq_None_iff dest: set_zip_leftD)

lemma set_param_closed:
  assumes "length vals = length names"
  shows "set_param names vals k params =
           Inr (case map_of (zip names vals) k of None \<Rightarrow> params | Some v \<Rightarrow> params(k \<mapsto> v))"
proof (cases "k \<in> set names")
  case True
  from list_index_zip [OF assms True] obtain i v where
    "list_index names k = Inr i" "getitem vals i = Inr v" "map_of (zip names vals) k = Some v"
    by blast
  with True show ?thesis by (simp add: set_param_def)
next
  case False
  then show ?thesis by (simp add: set_param_def map_of_zip_None)
qed

lemma for_params_closed:
  assumes "length vals = length names"
  shows "for_params names vals ks params =
           Inr (\<lambda>k. if k \<in> set ks
                     then (case map_of (zip names vals) k of None \<Rightarrow> params k | Some v \<Rightarrow> Some v)
                     else params k)"
proof (induction ks arbitrary: params)
  case Nil
  then show ?case by simp
next
  case (Cons p ps)
  show ?case
    by (simp add: set_param_closed [OF assms] Cons.IH)
       (auto simp: fun_eq_iff split: option.splits)
qed

lemma params0_apply: "params0 k = (if k \<in> set catalog then Some 0 else None)"
  unfolding params0_def
  by (simp add: map_of_map_restrict restrict_map_def)

lemma for_params_catalog:
  assumes "length vals = length names"
  shows "for_params names vals catalog params0 = Inr (loaded_params names vals)"
  by (simp add: for_params_closed [OF assms] loaded_params_def params0_apply fun_eq_iff
        split: option.splits)

text \<open>The keys of the dictionary are the 25 names of the catalog, whatever is supplied.\<close>

lemma for_params_dom:
  assumes "length vals = length names"
    and "for_params names vals catalog params0 = Inr params"
  shows "dom params = set catalog"
  using assms(2) unfolding for_params_catalog [OF assms(1)]
  by (auto simp: loaded_params_def split: if_splits)

lemma item_loaded:
  assumes "k \<in> set catalog"
  shows "item ((loaded_params names vals)(''dt'' \<mapsto> item (loaded_params names vals) ''dt'' * sec2deg)) k
           = term_value names vals k"
proof -
  have "''dt'' \<in> set catalog" by (simp add: catalog_def)
  with assms show ?thesis
    by (simp add: item_def loaded_params_def term_value_def sec2deg_def)
qed

subsection \<open>The two offsets on arrays of one length\<close>

lemma azimuth_offset_upt:
  assumes "az_enc self = map a [0..<n]" and "el_enc self = map e [0..<n]"
  shows "azimuth_offset params self =
           Inr (map (\<lambda>i. azd_spec (item params) (lat self) (a i) (e i)) [0..<n])"
  unfolding azimuth_offset_def Let_def aug_def np_sin_def np_cos_def np_tan_def scale_def assms
  by (simp add: binop_same inplace_same map2_map_map azd_spec_def algebra_simps)

lemma elevation_offset_upt:
  assumes "az_enc self = map a [0..<n]" and "el_enc self = map e [0..<n]"
     and "time self = map t [0..<n]" and "np_min (time self) = Inr m"
  shows "elevation_offset params self =
           Inr (map (\<lambda>i. eld_spec (item params) (lat self) (a i) (e i) (t i) m) [0..<n])"
  using assms(4)
  unfolding elevation_offset_def Let_def aug_def np_sin_def np_cos_def np_tan_def scale_def assms(1-3)
  by (simp add: binop_same inplace_same map2_map_map eld_spec_def algebra_simps)

lemma azd_spec_cong:
  assumes "\<And>k. k \<in> set catalog \<Longrightarrow> P k = P' k"
  shows "azd_spec P la az el = azd_spec P' la az el"
  unfolding azd_spec_def by (simp add: assms catalog_def)

lemma eld_spec_cong:
  assumes "\<And>k. k \<in> set catalog \<Longrightarrow> P k = P' k"
  shows "eld_spec P la az el t m = eld_spec P' la az el t m"
  unfolding eld_spec_def by (simp add: assms catalog_def)

lemma apply_pointing_model_upt:
  assumes len: "length (value_params self) = length (str_split (allowed_params self))"
    and az: "az_enc self = map a [0..<n]" and el: "el_enc self = map e [0..<n]"
    and t: "time self = map t [0..<n]" and m: "np_min (time self) = Inr m"
  shows "apply_pointing_model self =
     Inr (map (\<lambda>i. a i - azd_spec (term_value (str_split (allowed_params self)) (value_params self))
                          (lat self) (a i) (e i) * (pi / (180 * 60)) / cos (e i)) [0..<n],
          map (\<lambda>i. e i - eld_spec (term_value (str_split (allowed_params self)) (value_params self))
                          (lat self) (a i) (e i) (t i) m * (pi / (180 * 60))) [0..<n])"
proof -
  let ?names = "str_split (allowed_params self)"
  let ?vals = "value_params self"
  let ?params = "(loaded_params ?names ?vals)(''dt'' \<mapsto> item (loaded_params ?names ?vals) ''dt'' * sec2deg)"
  have A: "azd_spec (item ?params) = azd_spec (term_value ?names ?vals)"
    by (intro ext azd_spec_cong item_loaded)
  have E: "eld_spec (item ?params) = eld_spec (term_value ?names ?vals)"
    by (intro ext eld_spec_cong item_loaded)
  have azd: "azimuth_offset ?params self =
      Inr (map (\<lambda>i. azd_spec (term_value ?names ?vals) (lat self) (a i) (e i)) [0..<n])"
    by (simp add: azimuth_offset_upt [OF az el] A)
  have eld: "elevation_offset ?params self =
      Inr (map (\<lambda>i. eld_spec (term_value ?names ?vals) (lat self) (a i) (e i) (t i) m) [0..<n])"
    by (simp add: elevation_offset_upt [OF az el t m] E)
  show ?thesis
    unfolding apply_pointing_model_def Let_def
    by (simp add: len for_params_catalog azd eld)
       (simp add: az el np_cos_def inplace_same binop_same map2_map_map)
qed

text \<open>
  The same with the arrays as they are: on three arrays of one length, not empty, and
  with as many values as names, the call returns, and entry \<open>i\<close> of each result is
  given by the formulas.
\<close>

lemma apply_pointing_model_nth:
  assumes len: "length (value_params self) = length (str_split (allowed_params self))"
    and az: "length (az_enc self) = n" and el: "length (el_enc self) = n"
    and t: "length (time self) = n" and n: "0 < n"
  shows "apply_pointing_model self =
     Inr (map (\<lambda>i. az_enc self ! i -
                 azd_spec (term_value (str_split (allowed_params self)) (value_params self))
                   (lat self) (az_enc self ! i) (el_enc self ! i) * (pi / (180 * 60))
                 / cos (el_enc self ! i)) [0..<n],
          map (\<lambda>i. el_enc self ! i -
                 eld_spec (term_value (str_split (allowed_params self)) (value_params self))
                   (lat self) (az_enc self ! i) (el_enc self ! i) (time self ! i)
                   (Min (set (time self))) * (pi / (180 * 60))) [0..<n])"
proof -
  have a: "az_enc self = map (\<lambda>i. az_enc self ! i) [0..<n]"
    using az map_nth [of "az_enc self"] by simp
  have e: "el_enc self = map (\<lambda>i. el_enc self ! i) [0..<n]"
    using el map_nth [of "el_enc self"] by simp
  have tt: "time self = map (\<lambda>i. time self ! i) [0..<n]"
    using t map_nth [of "time self"] by simp
  have "time self \<noteq> []" using t n by auto
  then have m: "np_min (time self) = Inr (Min (set (time self)))"
    by (rule np_min_Min)
  show ?thesis
    by (rule apply_pointing_model_upt [OF len a e tt m])
qed

lemma length_two: "length xs = 2 \<Longrightarrow> xs = [xs ! 0, xs ! 1]"
  by (cases xs; cases "tl xs") auto

lemma term_value_zero:
  assumes "\<forall>v\<in>set vals. v = 0"
  shows "term_value names vals k = 0"
proof (cases "map_of (zip names vals) k")
  case None
  then show ?thesis by (simp add: term_value_def)
next
  case (Some v)
  then have "(k, v) \<in> set (zip names vals)" by (rule map_of_SomeD)
  then have "v \<in> set vals" by (rule set_zip_rightD)
  with assms have "v = 0" by blast
  with Some show ?thesis by (simp add: term_value_def)
qed

text \<open>Three name strings, split.\<close>

lemma str_split_ia_ie_elt: "str_split ''ia ie elt'' = [''ia'', ''ie'', ''elt'']"
  by (simp add: str_split_def is_space_def)

lemma str_split_doctest: "str_split ''ia ie ca an aw'' = [''ia'', ''ie'', ''ca'', ''an'', ''aw'']"
  by (simp add: str_split_def is_space_def)

lemma str_split_ia_ie_ca: "str_split ''ia ie ca'' = [''ia'', ''ie'', ''ca'']"
  by (simp add: str_split_def is_space_def)

subsection \<open>The correction follows the formulas\<close>

text \<open>
  Claim C1. On encoder azimuth, elevation and time arrays of one length \<open>n > 0\<close> and
  with as many parameter values as names, \<^verbatim>\<open>apply_pointing_model\<close> returns two arrays of
  length \<open>n\<close>. At every index \<open>i\<close> where neither \<open>tan (el_enc[i])\<close> nor
  \<open>cos (el_enc[i])\<close> is zero, entry \<open>i\<close> of the first is \<open>az_enc[i] - azd\<close>, where
  \<open>azd\<close> is the azimuth formula of the specification (with \<open>dt\<close> converted by
  \<open>360/86400\<close>) times \<open>\<pi>/(180\<cdot>60)\<close> and divided by \<open>cos (el_enc[i])\<close>, and entry \<open>i\<close>
  of the second is \<open>el_enc[i] - eld\<close>, where \<open>eld\<close> is the elevation formula times
  \<open>\<pi>/(180\<cdot>60)\<close>, with \<open>min(t)\<close> the least entry of the time array. Nothing is stated
  about an entry whose elevation makes a divisor zero: there the program computes an
  infinity or a NaN, which a real number does not represent.
\<close>

theorem apply_pointing_model_formulas:
  assumes "length (value_params self) = length (str_split (allowed_params self))"
    and "length (az_enc self) = n" and "length (el_enc self) = n"
    and "length (time self) = n" and "0 < n"
  shows "\<exists>az el. apply_pointing_model self = Inr (az, el) \<and> length az = n \<and> length el = n \<and>
           (\<forall>i<n. tan (el_enc self ! i) \<noteq> 0 \<and> cos (el_enc self ! i) \<noteq> 0 \<longrightarrow>
              az ! i = az_enc self ! i -
                azd_spec (term_value (str_split (allowed_params self)) (value_params self))
                  (lat self) (az_enc self ! i) (el_enc self ! i) * (pi / (180 * 60))
                / cos (el_enc self ! i) \<and>
              el ! i = el_enc self ! i -
                eld_spec (term_value (str_split (allowed_params self)) (value_params self))
                  (lat self) (az_enc self ! i) (el_enc self ! i) (time self ! i)
                  (Min (set (time self))) * (pi / (180 * 60)))"
  unfolding apply_pointing_model_nth [OF assms] by simp

text \<open>
  Two samples at elevation \<open>\<pi>/4\<close> with \<open>ia = 60\<close>, \<open>ie = 120\<close> and \<open>elt = 30\<close>: the
  azimuth moves by \<open>60\<close> arcminutes, the elevation by \<open>120\<close> and by \<open>120 - 30\<close> arcminutes.
\<close>

theorem apply_pointing_model_formulas_witness:
  "apply_pointing_model
     \<lparr>az_enc = [0, pi], el_enc = [pi / 4, pi / 4], time = [56293, 56294],
      value_params = [60, 120, 30], allowed_params = ''ia ie elt'', lat = 0\<rparr>
   = Inr ([- (pi / 180), pi - pi / 180], [pi / 4 + pi / 90, pi / 4 + pi / 120])"
proof -
  let ?S = "\<lparr>az_enc = [0, pi], el_enc = [pi / 4, pi / 4], time = [56293, 56294],
      value_params = [60, 120, 30], allowed_params = ''ia ie elt'', lat = 0\<rparr>"
  have h: "length (value_params ?S) = length (str_split (allowed_params ?S))"
    by (simp add: str_split_ia_ie_elt)
  from apply_pointing_model_formulas [of ?S 2, OF h]
  obtain az el where r: "apply_pointing_model ?S = Inr (az, el)"
    and la: "length az = 2" and le: "length el = 2"
    and f: "\<forall>i<2. tan (el_enc ?S ! i) \<noteq> 0 \<and> cos (el_enc ?S ! i) \<noteq> 0 \<longrightarrow>
              az ! i = az_enc ?S ! i -
                azd_spec (term_value (str_split (allowed_params ?S)) (value_params ?S))
                  (lat ?S) (az_enc ?S ! i) (el_enc ?S ! i) * (pi / (180 * 60))
                / cos (el_enc ?S ! i) \<and>
              el ! i = el_enc ?S ! i -
                eld_spec (term_value (str_split (allowed_params ?S)) (value_params ?S))
                  (lat ?S) (az_enc ?S ! i) (el_enc ?S ! i) (time ?S ! i)
                  (Min (set (time ?S))) * (pi / (180 * 60))"
    by auto
  have c: "cos (pi / 4) \<noteq> (0::real)" by (simp add: cos_45)
  have t: "tan (pi / 4) \<noteq> (0::real)" by (simp add: tan_45)
  from f have f0: "az ! 0 = az_enc ?S ! 0 -
                azd_spec (term_value (str_split (allowed_params ?S)) (value_params ?S))
                  (lat ?S) (az_enc ?S ! 0) (el_enc ?S ! 0) * (pi / (180 * 60))
                / cos (el_enc ?S ! 0) \<and>
              el ! 0 = el_enc ?S ! 0 -
                eld_spec (term_value (str_split (allowed_params ?S)) (value_params ?S))
                  (lat ?S) (az_enc ?S ! 0) (el_enc ?S ! 0) (time ?S ! 0)
                  (Min (set (time ?S))) * (pi / (180 * 60))"
    using c t by simp
  from f have f1: "az ! 1 = az_enc ?S ! 1 -
                azd_spec (term_value (str_split (allowed_params ?S)) (value_params ?S))
                  (lat ?S) (az_enc ?S ! 1) (el_enc ?S ! 1) * (pi / (180 * 60))
                / cos (el_enc ?S ! 1) \<and>
              el ! 1 = el_enc ?S ! 1 -
                eld_spec (term_value (str_split (allowed_params ?S)) (value_params ?S))
                  (lat ?S) (az_enc ?S ! 1) (el_enc ?S ! 1) (time ?S ! 1)
                  (Min (set (time ?S))) * (pi / (180 * 60))"
    using c t by simp
  from f0 have a0: "az ! 0 = - (pi / 180)" and e0: "el ! 0 = pi / 4 + pi / 90"
    using c by (simp_all add: str_split_ia_ie_elt term_value_def azd_spec_def eld_spec_def)
  from f1 have a1: "az ! 1 = pi - pi / 180" and e1: "el ! 1 = pi / 4 + pi / 120"
    using c by (simp_all add: str_split_ia_ie_elt term_value_def azd_spec_def eld_spec_def)
  have "az = [az ! 0, az ! 1]" by (rule length_two [OF la])
  then have "az = [- (pi / 180), pi - pi / 180]" by (simp only: a0 a1)
  moreover have "el = [el ! 0, el ! 1]" by (rule length_two [OF le])
  then have "el = [pi / 4 + pi / 90, pi / 4 + pi / 120]" by (simp only: e0 e1)
  ultimately have "(az, el) = ([- (pi / 180), pi - pi / 180], [pi / 4 + pi / 90, pi / 4 + pi / 120])"
    by (simp only:)
  with r show ?thesis by (simp only:)
qed

subsection \<open>All parameters zero\<close>

text \<open>
  Claim C2. When every supplied parameter value is zero and no elevation is \<open>0\<close> or
  \<open>\<pi>/2\<close>, the corrected azimuth and elevation are the encoder azimuth and elevation.
  The input is as above: three arrays of one length, not empty, and as many values as
  names. Over the reals the two sides are equal. The condition on the elevations is the
  one of the claim: in floating point \<open>0.0 / tan 0.0\<close> is a NaN, while the total division
  of HOL gives \<open>0\<close> there, so the proof below does not use it.
\<close>

theorem zero_params_identity:
  assumes "length (value_params self) = length (str_split (allowed_params self))"
    and "\<forall>v\<in>set (value_params self). v = 0"
    and "\<forall>e\<in>set (el_enc self). e \<noteq> 0 \<and> e \<noteq> pi / 2"
    and "length (el_enc self) = length (az_enc self)"
    and "length (time self) = length (az_enc self)"
    and "az_enc self \<noteq> []"
  shows "apply_pointing_model self = Inr (az_enc self, el_enc self)"
proof -
  let ?n = "length (az_enc self)"
  have n: "0 < ?n" using assms(6) by simp
  have z: "term_value (str_split (allowed_params self)) (value_params self) = (\<lambda>k. 0)"
    by (rule ext) (rule term_value_zero [OF assms(2)])
  have a: "map (\<lambda>i. az_enc self ! i) [0..<?n] = az_enc self"
    by (rule map_nth)
  have e: "map (\<lambda>i. el_enc self ! i) [0..<?n] = el_enc self"
    using map_nth [of "el_enc self"] assms(4) by simp
  show ?thesis
    unfolding apply_pointing_model_nth [OF assms(1) refl assms(4) assms(5) n] z
    by (simp add: azd_spec_def eld_spec_def a e)
qed

theorem zero_params_identity_witness:
  "apply_pointing_model
     \<lparr>az_enc = [0, 1 / 8], el_enc = [1 / 2, 1 / 2], time = [56293, 56294],
      value_params = [0, 0, 0, 0, 0], allowed_params = ''ia ie ca an aw'',
      lat = - 22 * pi / 180\<rparr>
   = Inr ([0, 1 / 8], [1 / 2, 1 / 2])"
proof -
  let ?S = "\<lparr>az_enc = [0, 1 / 8], el_enc = [1 / 2, 1 / 2], time = [56293, 56294],
      value_params = [0, 0, 0, 0, 0], allowed_params = ''ia ie ca an aw'',
      lat = - 22 * pi / 180\<rparr>"
  have h1: "length (value_params ?S) = length (str_split (allowed_params ?S))"
    by (simp add: str_split_doctest)
  have h2: "\<forall>v\<in>set (value_params ?S). v = 0" by simp
  have h3: "\<forall>e\<in>set (el_enc ?S). e \<noteq> 0 \<and> e \<noteq> pi / 2"
    using pi_ge_two by simp
  show ?thesis
    using zero_params_identity [OF h1 h2 h3] by simp
qed

subsection \<open>The length check\<close>

text \<open>
  Claim C3. When the number of parameter values differs from the number of names,
  \<^verbatim>\<open>apply_pointing_model\<close> raises \<^verbatim>\<open>AssertionError\<close>, whatever the arrays are: the
  assertion is the first statement, no corrected array is produced.
\<close>

theorem length_mismatch_raises:
  assumes "length (value_params self) \<noteq> length (str_split (allowed_params self))"
  shows "apply_pointing_model self = Inl AssertionError"
  using assms by (simp add: apply_pointing_model_def)

text \<open>Three names and two values, on arrays that do not fit each other.\<close>

theorem length_mismatch_raises_witness:
  "apply_pointing_model
     \<lparr>az_enc = [0, 1], el_enc = [1], time = [],
      value_params = [1, 2], allowed_params = ''ia ie ca'', lat = 0\<rparr>
   = Inl AssertionError"
  by (intro length_mismatch_raises) (simp add: str_split_ia_ie_ca)

subsection \<open>What the outcome depends on\<close>

lemma azimuth_offset_cong:
  assumes "\<forall>k\<in>set used_terms. item p k = item p' k"
  shows "azimuth_offset p self = azimuth_offset p' self"
  using assms unfolding azimuth_offset_def used_terms_def by simp

lemma elevation_offset_cong:
  assumes "\<forall>k\<in>set used_terms. item p k = item p' k"
  shows "elevation_offset p self = elevation_offset p' self"
  using assms unfolding elevation_offset_def used_terms_def by simp

lemma azimuth_offset_value_params [simp]:
  "azimuth_offset p (self\<lparr>value_params := v\<rparr>) = azimuth_offset p self"
  by (simp add: azimuth_offset_def)

lemma elevation_offset_value_params [simp]:
  "elevation_offset p (self\<lparr>value_params := v\<rparr>) = elevation_offset p self"
  by (simp add: elevation_offset_def)

lemma map_of_zip_agree:
  "length vals = length names \<Longrightarrow> length vals' = length names \<Longrightarrow>
   (\<forall>i<length names. names ! i = k \<longrightarrow> vals ! i = vals' ! i) \<Longrightarrow>
   map_of (zip names vals) k = map_of (zip names vals') k"
proof (induction names arbitrary: vals vals')
  case Nil
  then show ?case by simp
next
  case (Cons y ys)
  from Cons.prems(1) obtain w ws where v: "vals = w # ws" and l: "length ws = length ys"
    by (cases vals) auto
  from Cons.prems(2) obtain w' ws' where v': "vals' = w' # ws'" and l': "length ws' = length ys"
    by (cases vals') auto
  have tl: "\<forall>i<length ys. ys ! i = k \<longrightarrow> ws ! i = ws' ! i"
  proof (intro allI impI)
    fix i assume "i < length ys" "ys ! i = k"
    with Cons.prems(3) [rule_format, of "Suc i"] show "ws ! i = ws' ! i"
      by (simp add: v v')
  qed
  have hd: "y = k \<Longrightarrow> w = w'"
    using Cons.prems(3) [rule_format, of 0] by (simp add: v v')
  show ?case
    using Cons.IH [OF l l' tl] hd by (simp add: v v')
qed

lemma term_value_agree:
  assumes "length vals = length names" and "length vals' = length names"
    and "\<forall>i<length names. names ! i = k \<longrightarrow> vals ! i = vals' ! i"
  shows "term_value names vals k = term_value names vals' k"
  by (simp add: term_value_def map_of_zip_agree [OF assms])

lemma used_terms_catalog: "k \<in> set used_terms \<Longrightarrow> k \<in> set catalog"
  by (auto simp: used_terms_def catalog_def)

lemma used_terms_not_unused: "k \<in> set used_terms \<Longrightarrow> k \<notin> set unused_terms"
  by (auto simp: used_terms_def unused_terms_def)

text \<open>Two value lists that agree on every used term give the same outcome.\<close>

lemma apply_pointing_model_values_cong:
  assumes l: "length vals = length (str_split (allowed_params self))"
    and l': "length vals' = length (str_split (allowed_params self))"
    and eq: "\<forall>k\<in>set used_terms.
               term_value (str_split (allowed_params self)) vals k =
               term_value (str_split (allowed_params self)) vals' k"
  shows "apply_pointing_model (self\<lparr>value_params := vals\<rparr>) =
         apply_pointing_model (self\<lparr>value_params := vals'\<rparr>)"
proof -
  let ?names = "str_split (allowed_params self)"
  let ?p = "\<lambda>vs. (loaded_params ?names vs)(''dt'' \<mapsto> item (loaded_params ?names vs) ''dt'' * sec2deg)"
  have i: "\<forall>k\<in>set used_terms. item (?p vals) k = item (?p vals') k"
  proof
    fix k assume k: "k \<in> set used_terms"
    then have "k \<in> set catalog" by (rule used_terms_catalog)
    then show "item (?p vals) k = item (?p vals') k"
      using eq k by (simp only: item_loaded)
  qed
  have a: "azimuth_offset (?p vals) self = azimuth_offset (?p vals') self"
    by (rule azimuth_offset_cong [OF i])
  have e: "elevation_offset (?p vals) self = elevation_offset (?p vals') self"
    by (rule elevation_offset_cong [OF i])
  show ?thesis
    unfolding apply_pointing_model_def Let_def
    by (simp add: l l' for_params_catalog a e)
qed

lemma apply_pointing_model_returns:
  assumes "length (value_params self) = length (str_split (allowed_params self))"
    and "length (el_enc self) = length (az_enc self)"
    and "length (time self) = length (az_enc self)"
    and "az_enc self \<noteq> []"
  shows "\<exists>r. apply_pointing_model self = Inr r"
proof -
  have "0 < length (az_enc self)" using assms(4) by simp
  from apply_pointing_model_nth [OF assms(1) refl assms(2) assms(3) this]
  show ?thesis by blast
qed

text \<open>With as many values as names the assertion does not fail, whatever the names are.\<close>

lemma and_then_neq: "m \<noteq> Inl e \<Longrightarrow> (\<And>x. f x \<noteq> Inl e) \<Longrightarrow> and_then m f \<noteq> Inl e"
  by (cases m) auto

lemma binop_neq: "binop f xs ys \<noteq> Inl AssertionError"
  by (simp add: binop_def)

lemma inplace_neq: "inplace f xs ys \<noteq> Inl AssertionError"
  by (simp add: inplace_def)

lemma np_min_neq: "np_min xs \<noteq> Inl AssertionError"
  by (cases xs) simp_all

lemma azimuth_offset_neq: "azimuth_offset p self \<noteq> Inl AssertionError"
  unfolding azimuth_offset_def Let_def aug_def
  by (intro and_then_neq binop_neq inplace_neq) simp_all

lemma elevation_offset_neq: "elevation_offset p self \<noteq> Inl AssertionError"
  unfolding elevation_offset_def Let_def aug_def
  by (intro and_then_neq binop_neq inplace_neq np_min_neq) simp_all

lemma apply_pointing_model_no_assertion:
  assumes "length (value_params self) = length (str_split (allowed_params self))"
  shows "apply_pointing_model self \<noteq> Inl AssertionError"
  unfolding apply_pointing_model_def Let_def
  by (simp add: assms for_params_catalog)
     (intro and_then_neq binop_neq inplace_neq azimuth_offset_neq elevation_offset_neq, simp_all)

lemma str_split_ia_sa: "str_split ''ia sa'' = [''ia'', ''sa'']"
  by (simp add: str_split_def is_space_def)

lemma str_split_ia_bogus: "str_split ''ia bogus'' = [''ia'', ''bogus'']"
  by (simp add: str_split_def is_space_def)

subsection \<open>The ten terms without a correction\<close>

text \<open>
  Claim C7. The ten names \<open>ta1, te1, sa, se, sa2, se2, sta, ste, sta2, ste2\<close> are
  accepted and have no effect: two value lists (each with as many values as there are
  names) that agree at every position whose name is not one of the ten give the same
  outcome of \<^verbatim>\<open>apply_pointing_model\<close>, and on arrays of one length, not empty, that
  outcome is a pair of corrected arrays, not an error.
\<close>

theorem unused_terms_no_effect:
  assumes "length vals = length (str_split (allowed_params self))"
    and "length vals' = length (str_split (allowed_params self))"
    and "\<forall>i<length vals.
           str_split (allowed_params self) ! i \<notin> set unused_terms \<longrightarrow> vals ! i = vals' ! i"
  shows "apply_pointing_model (self\<lparr>value_params := vals\<rparr>) =
         apply_pointing_model (self\<lparr>value_params := vals'\<rparr>) \<and>
         (length (el_enc self) = length (az_enc self) \<and>
          length (time self) = length (az_enc self) \<and> az_enc self \<noteq> [] \<longrightarrow>
          (\<exists>r. apply_pointing_model (self\<lparr>value_params := vals\<rparr>) = Inr r))"
proof
  have "\<forall>k\<in>set used_terms.
          term_value (str_split (allowed_params self)) vals k =
          term_value (str_split (allowed_params self)) vals' k"
  proof
    fix k assume "k \<in> set used_terms"
    then have "k \<notin> set unused_terms" by (rule used_terms_not_unused)
    with assms(3) have "\<forall>i<length (str_split (allowed_params self)).
        str_split (allowed_params self) ! i = k \<longrightarrow> vals ! i = vals' ! i"
      by (auto simp: assms(1))
    from term_value_agree [OF assms(1) assms(2) this]
    show "term_value (str_split (allowed_params self)) vals k =
          term_value (str_split (allowed_params self)) vals' k" .
  qed
  from apply_pointing_model_values_cong [OF assms(1) assms(2) this]
  show "apply_pointing_model (self\<lparr>value_params := vals\<rparr>) =
        apply_pointing_model (self\<lparr>value_params := vals'\<rparr>)" .
next
  show "length (el_enc self) = length (az_enc self) \<and>
        length (time self) = length (az_enc self) \<and> az_enc self \<noteq> [] \<longrightarrow>
        (\<exists>r. apply_pointing_model (self\<lparr>value_params := vals\<rparr>) = Inr r)"
    using apply_pointing_model_returns [of "self\<lparr>value_params := vals\<rparr>"] assms(1)
    by simp
qed

text \<open>The names \<open>ia sa\<close> with the values \<open>60, 5\<close> and \<open>60, 77\<close>.\<close>

theorem unused_terms_no_effect_witness:
  "apply_pointing_model
     \<lparr>az_enc = [0, pi], el_enc = [pi / 4, pi / 4], time = [56293, 56294],
      value_params = [60, 5], allowed_params = ''ia sa'', lat = 0\<rparr> =
   apply_pointing_model
     \<lparr>az_enc = [0, pi], el_enc = [pi / 4, pi / 4], time = [56293, 56294],
      value_params = [60, 77], allowed_params = ''ia sa'', lat = 0\<rparr> \<and>
   (\<exists>r. apply_pointing_model
     \<lparr>az_enc = [0, pi], el_enc = [pi / 4, pi / 4], time = [56293, 56294],
      value_params = [60, 5], allowed_params = ''ia sa'', lat = 0\<rparr> = Inr r)"
proof -
  let ?S = "\<lparr>az_enc = [0, pi], el_enc = [pi / 4, pi / 4], time = [56293, 56294],
      value_params = [], allowed_params = ''ia sa'', lat = 0\<rparr>"
  have h1: "length [60, 5 :: real] = length (str_split (allowed_params ?S))"
    by (simp add: str_split_ia_sa)
  have h2: "length [60, 77 :: real] = length (str_split (allowed_params ?S))"
    by (simp add: str_split_ia_sa)
  have h3: "\<forall>i<length [60, 5 :: real].
      str_split (allowed_params ?S) ! i \<notin> set unused_terms \<longrightarrow> [60, 5 :: real] ! i = [60, 77] ! i"
    by (simp add: str_split_ia_sa unused_terms_def less_Suc_eq)
  note w = unused_terms_no_effect [OF h1 h2 h3]
  have A: "apply_pointing_model (?S\<lparr>value_params := [60, 5]\<rparr>) =
        apply_pointing_model (?S\<lparr>value_params := [60, 77]\<rparr>)"
    by (rule w [THEN conjunct1])
  have B: "\<exists>r. apply_pointing_model (?S\<lparr>value_params := [60, 5]\<rparr>) = Inr r"
    by (rule w [THEN conjunct2, THEN mp]) simp
  have "?S\<lparr>value_params := [60, 5]\<rparr> = \<lparr>az_enc = [0, pi], el_enc = [pi / 4, pi / 4],
      time = [56293, 56294], value_params = [60, 5], allowed_params = ''ia sa'', lat = 0\<rparr>"
    and "?S\<lparr>value_params := [60, 77]\<rparr> = \<lparr>az_enc = [0, pi], el_enc = [pi / 4, pi / 4],
      time = [56293, 56294], value_params = [60, 77], allowed_params = ''ia sa'', lat = 0\<rparr>"
    by simp_all
  with A B show ?thesis by (simp only:)
qed

subsection \<open>Names outside the catalog\<close>

text \<open>
  Claim C10. Only the number of names is checked, never the names: two value lists
  (each with as many values as there are names) that agree at every position whose name
  is one of the 25 of the catalog give the same outcome, so the value paired with any
  other name is never read; the outcome is not the assertion error, and on arrays of one
  length, not empty, it is a pair of corrected arrays.
\<close>

theorem unknown_names_accepted:
  assumes "length vals = length (str_split (allowed_params self))"
    and "length vals' = length (str_split (allowed_params self))"
    and "\<forall>i<length vals.
           str_split (allowed_params self) ! i \<in> set catalog \<longrightarrow> vals ! i = vals' ! i"
  shows "apply_pointing_model (self\<lparr>value_params := vals\<rparr>) =
         apply_pointing_model (self\<lparr>value_params := vals'\<rparr>) \<and>
         apply_pointing_model (self\<lparr>value_params := vals\<rparr>) \<noteq> Inl AssertionError \<and>
         (length (el_enc self) = length (az_enc self) \<and>
          length (time self) = length (az_enc self) \<and> az_enc self \<noteq> [] \<longrightarrow>
          (\<exists>r. apply_pointing_model (self\<lparr>value_params := vals\<rparr>) = Inr r))"
proof (intro conjI)
  have "\<forall>k\<in>set used_terms.
          term_value (str_split (allowed_params self)) vals k =
          term_value (str_split (allowed_params self)) vals' k"
  proof
    fix k assume "k \<in> set used_terms"
    then have "k \<in> set catalog" by (rule used_terms_catalog)
    with assms(3) have "\<forall>i<length (str_split (allowed_params self)).
        str_split (allowed_params self) ! i = k \<longrightarrow> vals ! i = vals' ! i"
      by (auto simp: assms(1))
    from term_value_agree [OF assms(1) assms(2) this]
    show "term_value (str_split (allowed_params self)) vals k =
          term_value (str_split (allowed_params self)) vals' k" .
  qed
  from apply_pointing_model_values_cong [OF assms(1) assms(2) this]
  show "apply_pointing_model (self\<lparr>value_params := vals\<rparr>) =
        apply_pointing_model (self\<lparr>value_params := vals'\<rparr>)" .
next
  show "apply_pointing_model (self\<lparr>value_params := vals\<rparr>) \<noteq> Inl AssertionError"
    by (rule apply_pointing_model_no_assertion) (simp add: assms(1))
next
  show "length (el_enc self) = length (az_enc self) \<and>
        length (time self) = length (az_enc self) \<and> az_enc self \<noteq> [] \<longrightarrow>
        (\<exists>r. apply_pointing_model (self\<lparr>value_params := vals\<rparr>) = Inr r)"
    using apply_pointing_model_returns [of "self\<lparr>value_params := vals\<rparr>"] assms(1)
    by simp
qed

text \<open>The names \<open>ia bogus\<close> with the values \<open>60, 5\<close> and \<open>60, -3\<close>.\<close>

theorem unknown_names_accepted_witness:
  "apply_pointing_model
     \<lparr>az_enc = [0, pi], el_enc = [pi / 4, pi / 4], time = [56293, 56294],
      value_params = [60, 5], allowed_params = ''ia bogus'', lat = 0\<rparr> =
   apply_pointing_model
     \<lparr>az_enc = [0, pi], el_enc = [pi / 4, pi / 4], time = [56293, 56294],
      value_params = [60, - 3], allowed_params = ''ia bogus'', lat = 0\<rparr> \<and>
   (\<exists>r. apply_pointing_model
     \<lparr>az_enc = [0, pi], el_enc = [pi / 4, pi / 4], time = [56293, 56294],
      value_params = [60, 5], allowed_params = ''ia bogus'', lat = 0\<rparr> = Inr r)"
proof -
  let ?S = "\<lparr>az_enc = [0, pi], el_enc = [pi / 4, pi / 4], time = [56293, 56294],
      value_params = [], allowed_params = ''ia bogus'', lat = 0\<rparr>"
  have h1: "length [60, 5 :: real] = length (str_split (allowed_params ?S))"
    by (simp add: str_split_ia_bogus)
  have h2: "length [60, - 3 :: real] = length (str_split (allowed_params ?S))"
    by (simp add: str_split_ia_bogus)
  have h3: "\<forall>i<length [60, 5 :: real].
      str_split (allowed_params ?S) ! i \<in> set catalog \<longrightarrow> [60, 5 :: real] ! i = [60, - 3] ! i"
    by (simp add: str_split_ia_bogus catalog_def less_Suc_eq)
  note w = unknown_names_accepted [OF h1 h2 h3]
  have A: "apply_pointing_model (?S\<lparr>value_params := [60, 5]\<rparr>) =
        apply_pointing_model (?S\<lparr>value_params := [60, - 3]\<rparr>)"
    by (rule w [THEN conjunct1])
  have B: "\<exists>r. apply_pointing_model (?S\<lparr>value_params := [60, 5]\<rparr>) = Inr r"
    by (rule w [THEN conjunct2, THEN conjunct2, THEN mp]) simp
  have "?S\<lparr>value_params := [60, 5]\<rparr> = \<lparr>az_enc = [0, pi], el_enc = [pi / 4, pi / 4],
      time = [56293, 56294], value_params = [60, 5], allowed_params = ''ia bogus'', lat = 0\<rparr>"
    and "?S\<lparr>value_params := [60, - 3]\<rparr> = \<lparr>az_enc = [0, pi], el_enc = [pi / 4, pi / 4],
      time = [56293, 56294], value_params = [60, - 3], allowed_params = ''ia bogus'', lat = 0\<rparr>"
    by simp_all
  with A B show ?thesis by (simp only:)
qed

subsection \<open>The binary search\<close>

text \<open>
  On a sorted array the search returns the insertion point: every entry before it is
  less than \<open>v\<close>, every entry from it on is at least \<open>v\<close>.
\<close>

lemma bisect_left_insertion:
  "sorted a \<Longrightarrow> lo \<le> hi \<Longrightarrow> hi \<le> length a \<Longrightarrow>
   (\<forall>j<lo. a ! j < v) \<Longrightarrow> (\<forall>j. hi \<le> j \<and> j < length a \<longrightarrow> v \<le> a ! j) \<Longrightarrow>
   lo \<le> bisect_left a v lo hi \<and> bisect_left a v lo hi \<le> hi \<and>
   (\<forall>j<bisect_left a v lo hi. a ! j < v) \<and>
   (\<forall>j. bisect_left a v lo hi \<le> j \<and> j < length a \<longrightarrow> v \<le> a ! j)"
proof (induction a v lo hi rule: bisect_left.induct)
  case (1 a v lo hi)
  let ?mid = "lo + (hi - lo) div 2"
  note srt = "1.prems"(1)
  show ?case
  proof (cases "lo < hi")
    case False
    then have "bisect_left a v lo hi = lo" by (subst bisect_left.simps) simp
    with False "1.prems" show ?thesis by simp
  next
    case True
    then have mid: "lo \<le> ?mid" "?mid < hi" by auto
    show ?thesis
    proof (cases "a ! ?mid < v")
      case lt: True
      have below: "\<forall>j<?mid + 1. a ! j < v"
      proof (intro allI impI)
        fix j assume "j < ?mid + 1"
        then have "j \<le> ?mid" by simp
        moreover have "?mid < length a" using mid "1.prems"(3) by simp
        ultimately have "a ! j \<le> a ! ?mid" using srt by (simp add: sorted_nth_mono)
        with lt show "a ! j < v" by simp
      qed
      have le: "?mid + 1 \<le> hi" using mid by simp
      have "bisect_left a v lo hi = bisect_left a v (?mid + 1) hi"
        using True lt by (subst bisect_left.simps) simp
      with "1.IH"(1) [OF True lt srt le "1.prems"(3) below "1.prems"(5)]
      show ?thesis using mid by simp
    next
      case ge: False
      have above: "\<forall>j. ?mid \<le> j \<and> j < length a \<longrightarrow> v \<le> a ! j"
      proof (intro allI impI)
        fix j assume "?mid \<le> j \<and> j < length a"
        then have "a ! ?mid \<le> a ! j" using srt by (simp add: sorted_nth_mono)
        with ge show "v \<le> a ! j" by simp
      qed
      have le: "?mid \<le> length a" using mid "1.prems"(3) by simp
      have "bisect_left a v lo hi = bisect_left a v lo ?mid"
        using True ge by (subst bisect_left.simps) simp
      with "1.IH"(2) [OF True ge srt mid(1) le "1.prems"(4) above]
      show ?thesis using mid by simp
    qed
  qed
qed

lemma searchsorted_insertion:
  assumes "sorted a"
  shows "searchsorted a v \<le> length a \<and>
         (\<forall>j<searchsorted a v. a ! j < v) \<and>
         (\<forall>j. searchsorted a v \<le> j \<and> j < length a \<longrightarrow> v \<le> a ! j)"
  using bisect_left_insertion [OF assms, of 0 "length a" v] by (simp add: searchsorted_def)

subsection \<open>The UT1-UTC lookup\<close>

text \<open>
  Claim C4, amended. On a table sorted by mjd, when some entry has an mjd greater than
  or equal to the query, \<^verbatim>\<open>get_ut1utc\<close> returns the correction of the first such entry,
  as it stands in the table.
\<close>

theorem get_ut1utc_first_entry:
  assumes "sorted (map fst table)"
    and "find (\<lambda>row. mjd \<le> fst row) table = Some row"
  shows "get_ut1utc table mjd = Inr (snd row)"
proof -
  let ?a = "map fst table"
  let ?i = "searchsorted ?a mjd"
  from assms(2) obtain k where k: "k < length table" and ge: "mjd \<le> fst (table ! k)"
    and row: "row = table ! k" and first: "\<forall>j<k. \<not> mjd \<le> fst (table ! j)"
    by (auto simp: find_Some_iff)
  from searchsorted_insertion [OF assms(1), of mjd]
  have below: "\<forall>j<?i. ?a ! j < mjd"
    and above: "\<forall>j. ?i \<le> j \<and> j < length ?a \<longrightarrow> mjd \<le> ?a ! j"
    by blast+
  have "\<not> ?i < k"
  proof
    assume "?i < k"
    with k above have "mjd \<le> ?a ! ?i" by simp
    moreover from first \<open>?i < k\<close> k have "\<not> mjd \<le> ?a ! ?i" by simp
    ultimately show False by simp
  qed
  moreover have "\<not> k < ?i"
  proof
    assume "k < ?i"
    with below have "?a ! k < mjd" by blast
    with ge k show False by simp
  qed
  ultimately have "?i = k" by simp
  with k row show ?thesis
    by (simp add: get_ut1utc_def Let_def getitem_def)
qed

text \<open>A query between the first and the second entry gives the second correction.\<close>

theorem get_ut1utc_first_entry_witness:
  "get_ut1utc [(56292, 276 / 1000), (56293, 277 / 1000), (56294, 279 / 1000)] (56292 + 1 / 2)
     = Inr (277 / 1000)"
proof -
  let ?T = "[(56292, 276 / 1000), (56293, 277 / 1000), (56294, 279 / 1000)] :: (real \<times> real) list"
  have h1: "sorted (map fst ?T)" by simp
  have h2: "find (\<lambda>row. 56292 + 1 / 2 \<le> fst row) ?T = Some (56293, 277 / 1000)" by simp
  from get_ut1utc_first_entry [OF h1 h2] show ?thesis by simp
qed

text \<open>
  The claim as stated, for every query: on a sorted table of two entries and a query
  after both, no entry is at or after the query and the lookup raises \<^verbatim>\<open>IndexError\<close>.
\<close>

theorem get_ut1utc_first_entry_counterexample:
  "sorted (map fst [(56292 :: real, 276 / 1000 :: real), (56293, 277 / 1000)]) \<and>
   find (\<lambda>row. 56294 \<le> fst row) [(56292 :: real, 276 / 1000 :: real), (56293, 277 / 1000)] = None \<and>
   get_ut1utc [(56292, 276 / 1000), (56293, 277 / 1000)] 56294 = Inl IndexError"
  by (simp add: get_ut1utc_def searchsorted_def getitem_def bisect_left.simps)

text \<open>
  Claim C9. On a sorted table that is not empty and a query greater than the largest
  mjd of the table, the search returns the length of the correction array, one past its
  last index, and \<^verbatim>\<open>get_ut1utc\<close> raises \<^verbatim>\<open>IndexError\<close>.
\<close>

theorem get_ut1utc_past_end:
  assumes "sorted (map fst table)" and "table \<noteq> []"
    and "Max (set (map fst table)) < mjd"
  shows "searchsorted (map fst table) mjd = length (map snd table) \<and>
         get_ut1utc table mjd = Inl IndexError"
proof -
  let ?a = "map fst table"
  let ?i = "searchsorted ?a mjd"
  from searchsorted_insertion [OF assms(1), of mjd]
  have le: "?i \<le> length ?a"
    and above: "\<forall>j. ?i \<le> j \<and> j < length ?a \<longrightarrow> mjd \<le> ?a ! j"
    by blast+
  have "\<not> ?i < length ?a"
  proof
    assume lt: "?i < length ?a"
    with above have "mjd \<le> ?a ! ?i" by blast
    moreover from lt have "?a ! ?i \<in> set ?a" by (rule nth_mem)
    then have "?a ! ?i \<le> Max (set ?a)" by simp
    ultimately show False using assms(3) by simp
  qed
  with le have "?i = length table" by simp
  then show ?thesis
    by (simp add: get_ut1utc_def Let_def getitem_def)
qed

theorem get_ut1utc_past_end_witness:
  "searchsorted (map fst [(56292 :: real, 276 / 1000 :: real), (56293, 277 / 1000)]) 56294 = 2 \<and>
   get_ut1utc [(56292, 276 / 1000), (56293, 277 / 1000)] 56294 = Inl IndexError"
proof -
  let ?T = "[(56292, 276 / 1000), (56293, 277 / 1000)] :: (real \<times> real) list"
  have h1: "sorted (map fst ?T)" by simp
  have h2: "?T \<noteq> []" by simp
  have h3: "Max (set (map fst ?T)) < 56294" by simp
  from get_ut1utc_past_end [OF h1 h2 h3] show ?thesis by simp
qed

subsection \<open>The forward conversion\<close>

text \<open>
  Claim C5. \<^verbatim>\<open>azel2radecpa\<close> returns what the specification describes: with the zenith
  distance \<open>\<pi>/2 - el\<close>, the mean-place block built from the equinox and the query epoch
  and the observation block advanced to the query epoch, the two reductions at the zenith
  distance plus and minus \<open>10\<^sup>-\<^sup>8\<close> give \<open>ra\<close> and \<open>dec\<close> as their midpoint and the
  parallactic angle as the bearing from the first to the second. The converter is left
  with the advanced observation block in \<open>aoprms\<close>, its other fields unchanged.
\<close>

theorem azel2radecpa_forward:
  "azel2radecpa sla self mjd az el =
     (self\<lparr>aoprms := sla_aoppat sla mjd (aoprms self)\<rparr>,
      snd (forward_spec sla (epequi self) (aoprms self) mjd az el)) \<and>
   fst (forward_spec sla (epequi self) (aoprms self) mjd az el) = sla_aoppat sla mjd (aoprms self)"
  by (simp add: azel2radecpa_def forward_spec_def Let_def split: prod.splits)

subsection \<open>Leakage suppression\<close>

lemma load_Inr:
  assumes "load_healpix_fits_map hp self force = Inr self'"
    and "nside self = None" and "Q_map self = None" and "U_map self = None"
  shows "no_ileak self' = no_ileak self \<and> no_quleak self' = no_quleak self \<and>
         do_pol self' = do_pol self \<and> (\<exists>i. I_map self' = Some i) \<and>
         (if do_pol self then (\<exists>q u. Q_map self' = Some q \<and> U_map self' = Some u)
          else Q_map self' = None \<and> U_map self' = None)"
  using assms
  by (auto simp: load_healpix_fits_map_def and_then_def
           split: if_splits sum.splits prod.splits option.splits)

lemma set_leakage_Inr:
  assumes "set_leakage_to_zero self = Inr self'"
  shows "(no_ileak self \<longrightarrow> all_zeros (I_map self')) \<and>
         (no_quleak self \<longrightarrow>
            (Q_map self \<noteq> None \<longrightarrow> all_zeros (Q_map self')) \<and>
            (U_map self \<noteq> None \<longrightarrow> all_zeros (U_map self'))) \<and>
         (Q_map self = None \<longrightarrow> Q_map self' = None) \<and>
         (U_map self = None \<longrightarrow> U_map self' = None)"
  using assms
  by (auto simp: set_leakage_to_zero_def and_then_def all_zeros_def Let_def list_all_iff
           split: if_splits sum.splits option.splits)

text \<open>
  Claim C8, amended. After a construction that succeeds: with \<^verbatim>\<open>no_ileak\<close> the
  attribute \<open>I\<close> is an array of zeros; with \<^verbatim>\<open>no_quleak\<close> and \<^verbatim>\<open>do_pol\<close> the attributes
  \<open>Q\<close> and \<open>U\<close> are arrays of zeros; without \<^verbatim>\<open>do_pol\<close> the attributes \<open>Q\<close> and \<open>U\<close> are
  \<^verbatim>\<open>None\<close>, whatever \<^verbatim>\<open>no_quleak\<close> is.
\<close>

theorem leakage_suppression:
  assumes "HealpixFitsMap_init hp fn pol ileak quleak = Inr self"
  shows "(ileak \<longrightarrow> all_zeros (I_map self)) \<and>
         (quleak \<and> pol \<longrightarrow> all_zeros (Q_map self) \<and> all_zeros (U_map self)) \<and>
         (\<not> pol \<longrightarrow> Q_map self = None \<and> U_map self = None)"
proof -
  let ?s0 = "\<lparr>input_filename = fn, do_pol = pol, no_ileak = ileak, no_quleak = quleak,
              nside = None, I_map = None, Q_map = None, U_map = None\<rparr>"
  from assms obtain s1 where l: "load_healpix_fits_map hp ?s0 False = Inr s1"
    and z: "set_leakage_to_zero s1 = Inr self"
    by (auto simp: HealpixFitsMap_init_def Let_def and_then_def split: sum.splits)
  from load_Inr [OF l] have f: "no_ileak s1 = ileak" "no_quleak s1 = quleak"
    and q: "if pol then (\<exists>q u. Q_map s1 = Some q \<and> U_map s1 = Some u)
            else Q_map s1 = None \<and> U_map s1 = None"
    by (auto split: if_splits)
  from set_leakage_Inr [OF z] f q show ?thesis
    by (auto split: if_splits)
qed

text \<open>Three maps of 12 pixels, all three flags set.\<close>

theorem leakage_suppression_witness:
  "HealpixFitsMap_init (stub_healpy (replicate 12 1) (replicate 12 2) (replicate 12 3))
      ''sky.fits'' True True True =
     Inr \<lparr>input_filename = ''sky.fits'', do_pol = True, no_ileak = True, no_quleak = True,
          nside = Some 1, I_map = Some (replicate 12 0), Q_map = Some (replicate 12 0),
          U_map = Some (replicate 12 0)\<rparr> \<and>
   all_zeros (Some (replicate 12 0))"
proof -
  let ?R = "\<lparr>input_filename = ''sky.fits'', do_pol = True, no_ileak = True, no_quleak = True,
          nside = Some 1, I_map = Some (replicate 12 0), Q_map = Some (replicate 12 0),
          U_map = Some (replicate 12 0)\<rparr>"
  have h: "HealpixFitsMap_init (stub_healpy (replicate 12 1) (replicate 12 2) (replicate 12 3))
      ''sky.fits'' True True True = Inr ?R"
    by (simp add: HealpixFitsMap_init_def load_healpix_fits_map_def set_leakage_to_zero_def
          stub_healpy_def Let_def)
  from leakage_suppression [OF h] have "all_zeros (I_map ?R)" by simp
  with h show ?thesis by simp
qed

text \<open>
  The claim as stated, for every loaded map: without \<^verbatim>\<open>do_pol\<close> only \<open>I\<close> is read, the
  guards \<^verbatim>\<open>is not None\<close> of lines 102 and 104 skip both assignments, and \<open>Q\<close> and \<open>U\<close>
  are \<^verbatim>\<open>None\<close> after the construction, not arrays of zeros.
\<close>

theorem leakage_suppression_counterexample:
  "HealpixFitsMap_init (stub_healpy (replicate 12 1) (replicate 12 2) (replicate 12 3))
      ''sky.fits'' False False True =
     Inr \<lparr>input_filename = ''sky.fits'', do_pol = False, no_ileak = False, no_quleak = True,
          nside = Some 1, I_map = Some (replicate 12 1), Q_map = None, U_map = None\<rparr> \<and>
   \<not> all_zeros None"
  by (simp add: HealpixFitsMap_init_def load_healpix_fits_map_def set_leakage_to_zero_def
        stub_healpy_def Let_def all_zeros_def)

end
